theory Spec2Isabelle
  imports Main "HOL-Library.Word" "HOL-Library.Monad_Syntax"
begin

unbundle bit_operations_syntax

section \<open>Go byte slices\<close>

text \<open>
  A Go slice is a window on a backing array: \<open>len\<close> elements are visible, and the
  elements from \<open>len\<close> up to \<open>cap\<close> can be reached again by re-slicing. A slice is
  modelled by its visible elements \<open>vis\<close> followed by the elements \<open>hid\<close> that lie
  between its length and its capacity. Indexing \<open>s[i]\<close> is checked against the
  length; the slice expression \<open>s[lo:hi]\<close> is checked against the capacity
  (\<open>0 \<le> lo \<le> hi \<le> cap(s)\<close>); \<open>s[lo:]\<close> is \<open>s[lo:len(s)]\<close>. A failed check is a
  run-time panic, modelled as \<open>None\<close>.
\<close>

type_synonym byte = "8 word"
type_synonym uint16 = "16 word"
type_synonym uint32 = "32 word"

datatype slice = Slice (vis: "byte list") (hid: "byte list")

definition nil :: slice where
  "nil = Slice [] []"

definition len :: "slice \<Rightarrow> nat" where
  "len s = length (vis s)"

definition cap :: "slice \<Rightarrow> nat" where
  "cap s = length (vis s) + length (hid s)"

definition idx :: "slice \<Rightarrow> nat \<Rightarrow> byte option" where
  "idx s i = (if i < len s then Some (vis s ! i) else None)"

definition slice_lh :: "slice \<Rightarrow> nat \<Rightarrow> nat \<Rightarrow> slice option" where
  "slice_lh s lo hi =
     (if lo \<le> hi \<and> hi \<le> cap s
      then Some (Slice (take (hi - lo) (drop lo (vis s @ hid s))) (drop hi (vis s @ hid s)))
      else None)"

definition slice_l :: "slice \<Rightarrow> nat \<Rightarrow> slice option" where
  "slice_l s lo = slice_lh s lo (len s)"

text \<open>\<open>string(b)\<close> copies the visible bytes; a Go string is a byte sequence.\<close>

type_synonym gostring = "byte list"

definition string_of :: "slice \<Rightarrow> gostring" where
  "string_of s = vis s"

text \<open>
  \<open>binary.BigEndian.Uint16\<close> and \<open>Uint32\<close> of the Go standard library
  (\<open>encoding/binary\<close>) index \<open>b[1]\<close> and \<open>b[3]\<close>: they panic on a slice whose
  length is below 2 and 4.
\<close>

definition Uint16 :: "slice \<Rightarrow> uint16 option" where
  "Uint16 b = do {
     b1 \<leftarrow> idx b 1;
     b0 \<leftarrow> idx b 0;
     Some ((ucast b1 :: uint16) OR push_bit 8 (ucast b0 :: uint16))
   }"

definition Uint32 :: "slice \<Rightarrow> uint32 option" where
  "Uint32 b = do {
     b3 \<leftarrow> idx b 3;
     b2 \<leftarrow> idx b 2;
     b1 \<leftarrow> idx b 1;
     b0 \<leftarrow> idx b 0;
     Some ((ucast b3 :: uint32) OR push_bit 8 (ucast b2 :: uint32)
           OR push_bit 16 (ucast b1 :: uint32) OR push_bit 24 (ucast b0 :: uint32))
   }"

section \<open>Data model of layers/lldp.go\<close>

text \<open>
  Structs are records and keep their field names. A field name that several structs
  share carries a prefix for its struct: \<open>chassis_Subtype\<close>, \<open>port_Subtype\<close>,
  \<open>mgmt_Subtype\<close>, \<open>ppvid_ID\<close>, \<open>vlan_ID\<close>, \<open>agg_PortID\<close>, \<open>agg3_PortID\<close>,
  \<open>evb_Supported\<close> and so on. Byte-typed enumerations are bytes.
\<close>

type_synonym LLDPTLVType = byte

definition LLDPTLVEnd :: LLDPTLVType where "LLDPTLVEnd = 0"
definition LLDPTLVChassisID :: LLDPTLVType where "LLDPTLVChassisID = 1"
definition LLDPTLVPortID :: LLDPTLVType where "LLDPTLVPortID = 2"
definition LLDPTLVTTL :: LLDPTLVType where "LLDPTLVTTL = 3"
definition LLDPTLVPortDescription :: LLDPTLVType where "LLDPTLVPortDescription = 4"
definition LLDPTLVSysName :: LLDPTLVType where "LLDPTLVSysName = 5"
definition LLDPTLVSysDescription :: LLDPTLVType where "LLDPTLVSysDescription = 6"
definition LLDPTLVSysCapabilities :: LLDPTLVType where "LLDPTLVSysCapabilities = 7"
definition LLDPTLVMgmtAddress :: LLDPTLVType where "LLDPTLVMgmtAddress = 8"
definition LLDPTLVOrgSpecific :: LLDPTLVType where "LLDPTLVOrgSpecific = 127"

lemmas LLDPTLV_defs =
  LLDPTLVEnd_def LLDPTLVChassisID_def LLDPTLVPortID_def LLDPTLVTTL_def
  LLDPTLVPortDescription_def LLDPTLVSysName_def LLDPTLVSysDescription_def
  LLDPTLVSysCapabilities_def LLDPTLVMgmtAddress_def LLDPTLVOrgSpecific_def

record LinkLayerDiscoveryValue =
  Type :: LLDPTLVType
  Length :: uint16
  Value :: slice

text \<open>
  The errors the decoder builds with \<open>fmt.Errorf\<close>, one constructor for each message:
  "Malformed LinkLayerDiscovery Header", "Missing mandatory LinkLayerDiscovery TLV",
  "Malformed LinkLayerDiscovery ChassisID TLV", "... PortID TLV", "... TTL TLV",
  "Invalid TLV %v length %d (wanted mimimum %v" with its three arguments, and
  "Invalid Org Specific TLV %v length %d (wanted minimum %v)" with its three arguments.
\<close>

datatype err =
    MalformedHeader
  | MissingMandatory
  | MalformedChassisID
  | MalformedPortID
  | MalformedTTL
  | InvalidTLVLength LLDPTLVType nat int
  | InvalidOrgTLVLength byte nat int

section \<open>The TLV walker (decodeLinkLayerDiscovery, first loop)\<close>

function walk :: "slice \<Rightarrow> LinkLayerDiscoveryValue list
    \<Rightarrow> (err + LinkLayerDiscoveryValue list) option" where
  "walk vData vals =
     (if len vData > 0 then
        do {
          b0 \<leftarrow> idx vData 0;
          let nbit = b0 AND 0x01;
          let t = drop_bit 1 b0;
          b1 \<leftarrow> idx vData 1;
          let l = (ucast (push_bit 8 nbit + b1) :: uint16);
          v \<leftarrow> (if l > 0 then slice_lh vData 2 (unat (l + 2)) else Some nil);
          let val = \<lparr>Type = t, Length = l, Value = v\<rparr>;
          let vals = vals @ [val];
          if t = LLDPTLVEnd then Some (Inr vals)
          else if len vData < unat (2 + l) then Some (Inl MalformedHeader)
          else do {
            vData' \<leftarrow> slice_l vData (unat (2 + l));
            walk vData' vals
          }
        }
      else Some (Inr vals))"
  by pat_completeness auto


termination walk
proof (relation "measure (\<lambda>(d, vs). len d)")
  show "wf (measure (\<lambda>(d, vs). len d))" by simp
next
  fix vData xg :: slice and xa xc :: byte and xd :: uint16
    and vals xf :: "LinkLayerDiscoveryValue list"
  assume a: "\<not> len vData < unat (2 + xd)" "xd = ucast (push_bit 8 xa + xc)"
    "0 < len vData" "slice_l vData (unat (2 + xd)) = Some xg"
  have "unat xc < 256"
    using unsigned_less [where w = xc and 'a = nat] by simp
  then have "unat (2 + (ucast xc :: uint16)) = 2 + unat xc"
    by (simp add: unat_word_ariths unsigned_ucast_eq take_bit_nat_eq_self)
  with a show "((xg, xf), (vData, vals)) \<in> measure (\<lambda>(d, vs). len d)"
    by (auto simp: slice_l_def slice_lh_def len_def split: if_splits)
qed

declare walk.simps [simp del]

section \<open>The base layer (decodeLinkLayerDiscovery, second loop)\<close>

record LLDPChassisID =
  chassis_Subtype :: byte
  chassis_ID :: slice

record LLDPPortID =
  port_Subtype :: byte
  port_ID :: slice

text \<open>
  \<open>baseLayer\<close> is declared outside this file; of its fields the decoder assigns
  \<open>contents\<close> only.
\<close>

record LinkLayerDiscovery =
  contents :: slice
  ChassisID :: LLDPChassisID
  PortID :: LLDPPortID
  TTL :: uint16
  Values :: "LinkLayerDiscoveryValue list"

definition zero_LinkLayerDiscovery :: LinkLayerDiscovery where
  "zero_LinkLayerDiscovery =
     \<lparr>contents = nil,
      ChassisID = \<lparr>chassis_Subtype = 0, chassis_ID = nil\<rparr>,
      PortID = \<lparr>port_Subtype = 0, port_ID = nil\<rparr>,
      TTL = 0, Values = []\<rparr>"

text \<open>
  A \<open>for ... range\<close> loop whose body may return an error (\<open>Inl\<close>) or panic
  (\<open>None\<close>), and one whose body may only panic.
\<close>

fun range_loop :: "('s \<Rightarrow> 'a \<Rightarrow> (err + 's) option) \<Rightarrow> 's \<Rightarrow> 'a list \<Rightarrow> (err + 's) option" where
  "range_loop f s [] = Some (Inr s)"
| "range_loop f s (x # xs) =
     (case f s x of
        None \<Rightarrow> None
      | Some (Inl e) \<Rightarrow> Some (Inl e)
      | Some (Inr s') \<Rightarrow> range_loop f s' xs)"

fun for_range :: "('s \<Rightarrow> 'a \<Rightarrow> 's option) \<Rightarrow> 's \<Rightarrow> 'a list \<Rightarrow> 's option" where
  "for_range f s [] = Some s"
| "for_range f s (x # xs) =
     (case f s x of None \<Rightarrow> None | Some s' \<Rightarrow> for_range f s' xs)"

definition extract_step :: "LinkLayerDiscovery \<times> bool \<Rightarrow> LinkLayerDiscoveryValue
    \<Rightarrow> (err + LinkLayerDiscovery \<times> bool) option" where
  "extract_step st v =
     (case st of (c, gotEnd) \<Rightarrow>
        if Type v = LLDPTLVEnd then Some (Inr (c, True))
        else if Type v = LLDPTLVChassisID then
          (if len (Value v) < 2 then Some (Inl MalformedChassisID)
           else do {
             s \<leftarrow> idx (Value v) 0;
             i \<leftarrow> slice_l (Value v) 1;
             Some (Inr (c\<lparr>ChassisID := \<lparr>chassis_Subtype = s, chassis_ID = i\<rparr>\<rparr>, gotEnd))
           })
        else if Type v = LLDPTLVPortID then
          (if len (Value v) < 2 then Some (Inl MalformedPortID)
           else do {
             s \<leftarrow> idx (Value v) 0;
             i \<leftarrow> slice_l (Value v) 1;
             Some (Inr (c\<lparr>PortID := \<lparr>port_Subtype = s, port_ID = i\<rparr>\<rparr>, gotEnd))
           })
        else if Type v = LLDPTLVTTL then
          (if len (Value v) < 2 then Some (Inl MalformedTTL)
           else do {
             b \<leftarrow> slice_lh (Value v) 0 2;
             t \<leftarrow> Uint16 b;
             Some (Inr (c\<lparr>TTL := t\<rparr>, gotEnd))
           })
        else Some (Inr (c\<lparr>Values := Values c @ [v]\<rparr>, gotEnd)))"

section \<open>The info layer (decodeLinkLayerDiscovery, third loop)\<close>

record LLDPCapabilities =
  Other :: bool
  Repeater :: bool
  Bridge :: bool
  WLANAP :: bool
  Router :: bool
  Phone :: bool
  DocSis :: bool
  StationOnly :: bool
  CVLAN :: bool
  SVLAN :: bool
  TMPR :: bool

definition getCapabilities :: "uint16 \<Rightarrow> LLDPCapabilities" where
  "getCapabilities v =
     \<lparr>Other = (v AND push_bit 0 1 > 0),
      Repeater = (v AND push_bit 1 1 > 0),
      Bridge = (v AND push_bit 2 1 > 0),
      WLANAP = (v AND push_bit 3 1 > 0),
      Router = (v AND push_bit 4 1 > 0),
      Phone = (v AND push_bit 5 1 > 0),
      DocSis = (v AND push_bit 6 1 > 0),
      StationOnly = (v AND push_bit 7 1 > 0),
      CVLAN = (v AND push_bit 8 1 > 0),
      SVLAN = (v AND push_bit 9 1 > 0),
      TMPR = (v AND push_bit 10 1 > 0)\<rparr>"

record LLDPSysCapabilities =
  SystemCap :: LLDPCapabilities
  EnabledCap :: LLDPCapabilities

record LLDPMgmtAddress =
  mgmt_Subtype :: byte
  Address :: slice
  InterfaceSubtype :: byte
  InterfaceNumber :: uint32
  OID :: gostring

type_synonym IEEEOUI = uint32

record LLDPOrgSpecificTLV =
  OUI :: IEEEOUI
  SubType :: byte
  Info :: slice

record LinkLayerDiscoveryInfo =
  PortDescription :: gostring
  SysName :: gostring
  SysDescription :: gostring
  SysCapabilities :: LLDPSysCapabilities
  MgmtAddress :: LLDPMgmtAddress
  OrgTLVs :: "LLDPOrgSpecificTLV list"
  Unknown :: "LinkLayerDiscoveryValue list"

definition zero_LLDPCapabilities :: LLDPCapabilities where
  "zero_LLDPCapabilities =
     \<lparr>Other = False, Repeater = False, Bridge = False, WLANAP = False, Router = False,
      Phone = False, DocSis = False, StationOnly = False, CVLAN = False, SVLAN = False,
      TMPR = False\<rparr>"

definition zero_LLDPSysCapabilities :: LLDPSysCapabilities where
  "zero_LLDPSysCapabilities =
     \<lparr>SystemCap = zero_LLDPCapabilities, EnabledCap = zero_LLDPCapabilities\<rparr>"

definition zero_LinkLayerDiscoveryInfo :: LinkLayerDiscoveryInfo where
  "zero_LinkLayerDiscoveryInfo =
     \<lparr>PortDescription = [], SysName = [], SysDescription = [],
      SysCapabilities = zero_LLDPSysCapabilities,
      MgmtAddress = \<lparr>mgmt_Subtype = 0, Address = nil, InterfaceSubtype = 0,
                     InterfaceNumber = 0, OID = []\<rparr>,
      OrgTLVs = [], Unknown = []\<rparr>"

definition checkLLDPTLVLen :: "LinkLayerDiscoveryValue \<Rightarrow> int \<Rightarrow> err list \<Rightarrow> bool \<times> err list" where
  "checkLLDPTLVLen v l e =
     (let ok = (int (len (Value v)) \<ge> l)
      in if \<not> ok then (ok, e @ [InvalidTLVLength (Type v) (len (Value v)) l]) else (ok, e))"

text \<open>
  \<open>append([]byte{byte(0)}, b...)\<close>: a fresh slice holding 0 and the visible bytes
  of \<open>b\<close>; only its visible bytes are read afterwards.
\<close>

definition append_zero :: "slice \<Rightarrow> slice" where
  "append_zero b = Slice (0 # vis b) []"

definition decodeInfo_step :: "LinkLayerDiscoveryInfo \<times> err list \<Rightarrow> LinkLayerDiscoveryValue
    \<Rightarrow> (LinkLayerDiscoveryInfo \<times> err list) option" where
  "decodeInfo_step st v =
     (case st of (info, errors) \<Rightarrow>
        if Type v = LLDPTLVPortDescription then
          Some (info\<lparr>PortDescription := string_of (Value v)\<rparr>, errors)
        else if Type v = LLDPTLVSysName then
          Some (info\<lparr>SysName := string_of (Value v)\<rparr>, errors)
        else if Type v = LLDPTLVSysDescription then
          Some (info\<lparr>SysDescription := string_of (Value v)\<rparr>, errors)
        else if Type v = LLDPTLVSysCapabilities then
          (case checkLLDPTLVLen v 4 errors of (ok, errors) \<Rightarrow>
             if ok then do {
               b \<leftarrow> slice_lh (Value v) 0 2;
               sc \<leftarrow> Uint16 b;
               b' \<leftarrow> slice_lh (Value v) 2 4;
               ec \<leftarrow> Uint16 b';
               Some (info\<lparr>SysCapabilities :=
                       \<lparr>SystemCap = getCapabilities sc, EnabledCap = getCapabilities ec\<rparr>\<rparr>,
                     errors)
             }
             else Some (info, errors))
        else if Type v = LLDPTLVMgmtAddress then
          (case checkLLDPTLVLen v 9 errors of (ok, errors) \<Rightarrow>
             if ok then do {
               mlen \<leftarrow> idx (Value v) 0;
               case checkLLDPTLVLen v (uint (mlen + 7)) errors of (ok, errors) \<Rightarrow>
                 if \<not> ok then Some (info, errors)
                 else do {
                   sub \<leftarrow> idx (Value v) 1;
                   addr \<leftarrow> slice_lh (Value v) 2 (unat (mlen + 1));
                   ist \<leftarrow> idx (Value v) (unat (mlen + 1));
                   nb \<leftarrow> slice_lh (Value v) (unat (mlen + 2)) (unat (mlen + 6));
                   inum \<leftarrow> Uint32 nb;
                   let info = info\<lparr>MgmtAddress := (MgmtAddress info)
                     \<lparr>mgmt_Subtype := sub, Address := addr, InterfaceSubtype := ist,
                      InterfaceNumber := inum\<rparr>\<rparr>;
                   olen \<leftarrow> idx (Value v) (unat (mlen + 6));
                   case checkLLDPTLVLen v (uint (mlen + 6 + olen)) errors of (ok, errors) \<Rightarrow>
                     if ok then do {
                       oid \<leftarrow> slice_lh (Value v) (unat (mlen + 9)) (unat (mlen + 9 + olen));
                       Some (info\<lparr>MgmtAddress := (MgmtAddress info)\<lparr>OID := string_of oid\<rparr>\<rparr>,
                             errors)
                     }
                     else Some (info, errors)
                 }
             }
             else Some (info, errors))
        else if Type v = LLDPTLVOrgSpecific then
          (case checkLLDPTLVLen v 4 errors of (ok, errors) \<Rightarrow>
             if \<not> ok then Some (info, errors)
             else do {
               b \<leftarrow> slice_lh (Value v) 0 3;
               oui \<leftarrow> Uint32 (append_zero b);
               sub \<leftarrow> idx (Value v) 3;
               rest \<leftarrow> slice_l (Value v) 4;
               Some (info\<lparr>OrgTLVs := OrgTLVs info @ [\<lparr>OUI = oui, SubType = sub, Info = rest\<rparr>]\<rparr>,
                     errors)
             })
        else Some (info, errors))"

section \<open>decodeLinkLayerDiscovery\<close>

text \<open>
  The packet builder \<open>p\<close> is the list of layers added so far; \<open>p.AddLayer\<close> appends.
  A call either panics or returns; what it returns is \<open>nil\<close> (\<open>None\<close>) or an error.
  Layers added before a panic stay added.
\<close>

datatype layer =
    LayerLinkLayerDiscovery LinkLayerDiscovery
  | LayerLinkLayerDiscoveryInfo LinkLayerDiscoveryInfo

datatype outcome = Panicked | Returned "err option"

definition first_error :: "err list \<Rightarrow> err option" where
  "first_error errors = (if length errors > 0 then Some (hd errors) else None)"

text \<open>Lines 509 to 551: the info loop over \<open>c.Values\<close>, \<open>p.AddLayer(info)\<close>, the return.\<close>

definition decodeInfo_loop :: "LinkLayerDiscoveryValue list
    \<Rightarrow> (LinkLayerDiscoveryInfo \<times> err list) option" where
  "decodeInfo_loop vs = for_range decodeInfo_step (zero_LinkLayerDiscoveryInfo, []) vs"

definition decodeInfo :: "LinkLayerDiscoveryValue list \<Rightarrow> layer list \<Rightarrow> layer list \<times> outcome" where
  "decodeInfo vs p =
     (case decodeInfo_loop vs of
        None \<Rightarrow> (p, Panicked)
      | Some (info, errors) \<Rightarrow>
          (p @ [LayerLinkLayerDiscoveryInfo info], Returned (first_error errors)))"

definition decodeLinkLayerDiscovery :: "slice \<Rightarrow> layer list \<Rightarrow> layer list \<times> outcome" where
  "decodeLinkLayerDiscovery data p =
     (case slice_l data 0 of
        None \<Rightarrow> (p, Panicked)
      | Some vData \<Rightarrow>
     (case walk vData [] of
        None \<Rightarrow> (p, Panicked)
      | Some (Inl e) \<Rightarrow> (p, Returned (Some e))
      | Some (Inr vals) \<Rightarrow>
          if length vals < 4 then (p, Returned (Some MissingMandatory))
          else
            (case range_loop extract_step (zero_LinkLayerDiscovery, False) vals of
               None \<Rightarrow> (p, Panicked)
             | Some (Inl e) \<Rightarrow> (p, Returned (Some e))
             | Some (Inr (c, gotEnd)) \<Rightarrow>
                 if chassis_Subtype (ChassisID c) = 0 \<or> port_Subtype (PortID c) = 0 \<or> \<not> gotEnd
                 then (p, Returned (Some MissingMandatory))
                 else
                   (let c = c\<lparr>contents := data\<rparr>;
                        p = p @ [LayerLinkLayerDiscovery c]
                    in decodeInfo (Values c) p))))"

section \<open>Organisation-specific decoders\<close>

definition IEEEOUI8021 :: IEEEOUI where "IEEEOUI8021 = 0x0080c2"
definition IEEEOUI8023 :: IEEEOUI where "IEEEOUI8023 = 0x00120f"
definition IEEEOUI8021Qbg :: IEEEOUI where "IEEEOUI8021Qbg = 0x0013BF"

definition checkLLDPOrgSpecificLen :: "LLDPOrgSpecificTLV \<Rightarrow> int \<Rightarrow> err list \<Rightarrow> bool \<times> err list" where
  "checkLLDPOrgSpecificLen o' l e =
     (let ok = (int (len (Info o')) \<ge> l)
      in if \<not> ok then (ok, e @ [InvalidOrgTLVLength (SubType o') (len (Info o')) l]) else (ok, e))"

subsection \<open>IEEE 802.1\<close>

definition LLDP8021SubtypePortVLANID :: byte where "LLDP8021SubtypePortVLANID = 1"
definition LLDP8021SubtypeProtocolVLANID :: byte where "LLDP8021SubtypeProtocolVLANID = 2"
definition LLDP8021SubtypeVLANName :: byte where "LLDP8021SubtypeVLANName = 3"
definition LLDP8021SubtypeProtocolIdentity :: byte where "LLDP8021SubtypeProtocolIdentity = 4"
definition LLDP8021SubtypeVDIUsageDigest :: byte where "LLDP8021SubtypeVDIUsageDigest = 5"
definition LLDP8021SubtypeManagementVID :: byte where "LLDP8021SubtypeManagementVID = 6"
definition LLDP8021SubtypeLinkAggregation :: byte where "LLDP8021SubtypeLinkAggregation = 7"

lemmas LLDP8021Subtype_defs =
  LLDP8021SubtypePortVLANID_def LLDP8021SubtypeProtocolVLANID_def
  LLDP8021SubtypeVLANName_def LLDP8021SubtypeProtocolIdentity_def
  LLDP8021SubtypeVDIUsageDigest_def LLDP8021SubtypeManagementVID_def
  LLDP8021SubtypeLinkAggregation_def

definition LLDPProtocolVLANIDCapability :: byte where "LLDPProtocolVLANIDCapability = push_bit 0 1"
definition LLDPProtocolVLANIDStatus :: byte where "LLDPProtocolVLANIDStatus = push_bit 1 1"
definition LLDPAggregationCapability :: byte where "LLDPAggregationCapability = push_bit 0 1"
definition LLDPAggregationStatus :: byte where "LLDPAggregationStatus = push_bit 1 1"

record PortProtocolVLANID =
  ppvid_Supported :: bool
  ppvid_Enabled :: bool
  ppvid_ID :: uint16

record VLANName =
  vlan_ID :: uint16
  Name :: gostring

type_synonym ProtocolIdentity = slice

record LinkAggregation8021 =
  agg_Supported :: bool
  agg_Enabled :: bool
  agg_PortID :: uint32

record LLDPInfo8021 =
  PVID :: uint16
  PPVIDs :: "PortProtocolVLANID list"
  VLANNames :: "VLANName list"
  ProtocolIdentities :: "ProtocolIdentity list"
  VIDUsageDigest :: uint32
  ManagementVID :: uint16
  LinkAggregation :: LinkAggregation8021

definition zero_LLDPInfo8021 :: LLDPInfo8021 where
  "zero_LLDPInfo8021 =
     \<lparr>PVID = 0, PPVIDs = [], VLANNames = [], ProtocolIdentities = [], VIDUsageDigest = 0,
      ManagementVID = 0,
      LinkAggregation = \<lparr>agg_Supported = False, agg_Enabled = False, agg_PortID = 0\<rparr>\<rparr>"

definition Decode8021_step :: "LLDPInfo8021 \<times> err list \<Rightarrow> LLDPOrgSpecificTLV
    \<Rightarrow> (LLDPInfo8021 \<times> err list) option" where
  "Decode8021_step st o' =
     (case st of (info, errors) \<Rightarrow>
        if OUI o' \<noteq> IEEEOUI8021 then Some (info, errors)
        else if SubType o' = LLDP8021SubtypePortVLANID then
          (case checkLLDPOrgSpecificLen o' 2 errors of (ok, errors) \<Rightarrow>
             if ok then do {
               b \<leftarrow> slice_lh (Info o') 0 2;
               v \<leftarrow> Uint16 b;
               Some (info\<lparr>PVID := v\<rparr>, errors)
             }
             else Some (info, errors))
        else if SubType o' = LLDP8021SubtypeProtocolVLANID then
          (case checkLLDPOrgSpecificLen o' 3 errors of (ok, errors) \<Rightarrow>
             if ok then do {
               f \<leftarrow> idx (Info o') 0;
               let sup = (f AND LLDPProtocolVLANIDCapability > 0);
               f' \<leftarrow> idx (Info o') 0;
               let en = (f' AND LLDPAggregationStatus > 0);
               b \<leftarrow> slice_lh (Info o') 1 3;
               i \<leftarrow> Uint16 b;
               Some (info\<lparr>PPVIDs := PPVIDs info @
                       [\<lparr>ppvid_Supported = sup, ppvid_Enabled = en, ppvid_ID = i\<rparr>]\<rparr>, errors)
             }
             else Some (info, errors))
        else if SubType o' = LLDP8021SubtypeVLANName then
          (case checkLLDPOrgSpecificLen o' 2 errors of (ok, errors) \<Rightarrow>
             if ok then do {
               b \<leftarrow> slice_lh (Info o') 0 2;
               i \<leftarrow> Uint16 b;
               n \<leftarrow> slice_l (Info o') 3;
               Some (info\<lparr>VLANNames := VLANNames info @
                       [\<lparr>vlan_ID = i, Name = string_of n\<rparr>]\<rparr>, errors)
             }
             else Some (info, errors))
        else if SubType o' = LLDP8021SubtypeProtocolIdentity then
          (case checkLLDPOrgSpecificLen o' 1 errors of (ok, errors) \<Rightarrow>
             if ok then do {
               b0 \<leftarrow> idx (Info o') 0;
               let l = unat b0;
               if l > 0 then do {
                 pi \<leftarrow> slice_lh (Info o') 1 (1 + l);
                 Some (info\<lparr>ProtocolIdentities := ProtocolIdentities info @ [pi]\<rparr>, errors)
               }
               else Some (info, errors)
             }
             else Some (info, errors))
        else if SubType o' = LLDP8021SubtypeVDIUsageDigest then
          (case checkLLDPOrgSpecificLen o' 4 errors of (ok, errors) \<Rightarrow>
             if ok then do {
               b \<leftarrow> slice_lh (Info o') 0 4;
               v \<leftarrow> Uint32 b;
               Some (info\<lparr>VIDUsageDigest := v\<rparr>, errors)
             }
             else Some (info, errors))
        else if SubType o' = LLDP8021SubtypeManagementVID then
          (case checkLLDPOrgSpecificLen o' 2 errors of (ok, errors) \<Rightarrow>
             if ok then do {
               b \<leftarrow> slice_lh (Info o') 0 2;
               v \<leftarrow> Uint16 b;
               Some (info\<lparr>ManagementVID := v\<rparr>, errors)
             }
             else Some (info, errors))
        else if SubType o' = LLDP8021SubtypeLinkAggregation then
          (case checkLLDPOrgSpecificLen o' 5 errors of (ok, errors) \<Rightarrow>
             if ok then do {
               f \<leftarrow> idx (Info o') 0;
               let sup = (f AND LLDPAggregationCapability > 0);
               f' \<leftarrow> idx (Info o') 0;
               let en = (f' AND LLDPAggregationStatus > 0);
               b \<leftarrow> slice_lh (Info o') 1 5;
               v \<leftarrow> Uint32 b;
               Some (info\<lparr>LinkAggregation :=
                       \<lparr>agg_Supported = sup, agg_Enabled = en, agg_PortID = v\<rparr>\<rparr>, errors)
             }
             else Some (info, errors))
        else Some (info, errors))"

text \<open>
  The loop of \<open>Decode8021\<close> with its local \<open>errors\<close>, and the method itself,
  which returns \<open>info\<close> and \<open>errors[0]\<close> when there is one.
\<close>

definition Decode8021_loop :: "LinkLayerDiscoveryInfo \<Rightarrow> (LLDPInfo8021 \<times> err list) option" where
  "Decode8021_loop l = for_range Decode8021_step (zero_LLDPInfo8021, []) (OrgTLVs l)"

definition Decode8021 :: "LinkLayerDiscoveryInfo \<Rightarrow> (LLDPInfo8021 \<times> err option) option" where
  "Decode8021 l =
     (case Decode8021_loop l of
        None \<Rightarrow> None
      | Some (info, errors) \<Rightarrow> Some (info, first_error errors))"

subsection \<open>IEEE 802.3\<close>

definition LLDP8023SubtypeMACPHY :: byte where "LLDP8023SubtypeMACPHY = 1"
definition LLDP8023SubtypeMDIPower :: byte where "LLDP8023SubtypeMDIPower = 2"
definition LLDP8023SubtypeLinkAggregation :: byte where "LLDP8023SubtypeLinkAggregation = 3"
definition LLDP8023SubtypeMTU :: byte where "LLDP8023SubtypeMTU = 4"

lemmas LLDP8023Subtype_defs =
  LLDP8023SubtypeMACPHY_def LLDP8023SubtypeMDIPower_def
  LLDP8023SubtypeLinkAggregation_def LLDP8023SubtypeMTU_def

definition LLDPMACPHYCapability :: byte where "LLDPMACPHYCapability = push_bit 0 1"
definition LLDPMACPHYStatus :: byte where "LLDPMACPHYStatus = push_bit 1 1"

definition LLDPMDIPowerPortClass :: byte where "LLDPMDIPowerPortClass = push_bit 0 1"
definition LLDPMDIPowerCapability :: byte where "LLDPMDIPowerCapability = push_bit 1 1"
definition LLDPMDIPowerStatus :: byte where "LLDPMDIPowerStatus = push_bit 2 1"
definition LLDPMDIPowerPairsAbility :: byte where "LLDPMDIPowerPairsAbility = push_bit 3 1"

record MACPHYConfigStatus =
  AutoNegSupported :: bool
  AutoNegEnabled :: bool
  AutoNegCapability :: uint16
  MAUType :: uint16

record PowerViaMDI =
  PortClassPSE :: bool
  PSESupported :: bool
  PSEEnabled :: bool
  PSEPairsAbility :: bool
  PSEPowerPair :: byte
  PSEClass :: byte
  PowerType :: byte
  PowerSource :: byte
  PowerPriority :: byte
  RequestedPower :: uint16
  AllocatedPower :: uint16

record LinkAggregation8023 =
  agg3_Status :: byte
  agg3_PortID :: uint32

text \<open>
  \<open>LLDPInfo8023\<close> embeds \<open>MACPHYConfigStatus\<close> and \<open>PowerViaMDI\<close>; the embedded
  structs are the fields \<open>info_MACPHYConfigStatus\<close> and \<open>info_PowerViaMDI\<close>.
\<close>

record LLDPInfo8023 =
  info_MACPHYConfigStatus :: MACPHYConfigStatus
  info_PowerViaMDI :: PowerViaMDI
  LinkAggregation3 :: LinkAggregation8023
  MTU :: uint16

definition zero_PowerViaMDI :: PowerViaMDI where
  "zero_PowerViaMDI =
     \<lparr>PortClassPSE = False, PSESupported = False, PSEEnabled = False, PSEPairsAbility = False,
      PSEPowerPair = 0, PSEClass = 0, PowerType = 0, PowerSource = 0, PowerPriority = 0,
      RequestedPower = 0, AllocatedPower = 0\<rparr>"

definition zero_LLDPInfo8023 :: LLDPInfo8023 where
  "zero_LLDPInfo8023 =
     \<lparr>info_MACPHYConfigStatus = \<lparr>AutoNegSupported = False, AutoNegEnabled = False,
                                 AutoNegCapability = 0, MAUType = 0\<rparr>,
      info_PowerViaMDI = zero_PowerViaMDI,
      LinkAggregation3 = \<lparr>agg3_Status = 0, agg3_PortID = 0\<rparr>,
      MTU = 0\<rparr>"

text \<open>Lines 625 to 640: the body of the MDI-Power case once the length check passed.\<close>

definition decodeMDIPower :: "slice \<Rightarrow> PowerViaMDI \<Rightarrow> PowerViaMDI option" where
  "decodeMDIPower i pw = do {
     f0 \<leftarrow> idx i 0;
     let pw = pw\<lparr>PortClassPSE := (f0 AND LLDPMDIPowerPortClass > 0)\<rparr>;
     f1 \<leftarrow> idx i 0;
     let pw = pw\<lparr>PSESupported := (f1 AND LLDPMDIPowerCapability > 0)\<rparr>;
     f2 \<leftarrow> idx i 0;
     let pw = pw\<lparr>PSEEnabled := (f2 AND LLDPMDIPowerStatus > 0)\<rparr>;
     f3 \<leftarrow> idx i 0;
     let pw = pw\<lparr>PSEPairsAbility := (f3 AND LLDPMDIPowerPairsAbility > 0)\<rparr>;
     pp \<leftarrow> idx i 1;
     let pw = pw\<lparr>PSEPowerPair := pp\<rparr>;
     pc \<leftarrow> idx i 2;
     let pw = pw\<lparr>PSEClass := pc\<rparr>;
     if len i \<ge> 8 then do {
       t \<leftarrow> idx i 3;
       let pw = pw\<lparr>PowerType := drop_bit 6 (t AND 0xc0)\<rparr>;
       s \<leftarrow> idx i 3;
       let pw = pw\<lparr>PowerSource := drop_bit 4 (s AND 0x30)\<rparr>;
       let pw = (if PowerType pw = 1 \<or> PowerType pw = 3
                 then pw\<lparr>PowerSource := PowerSource pw + 128\<rparr> else pw);
       pr \<leftarrow> idx i 4;
       let pw = pw\<lparr>PowerPriority := pr AND 0x0f\<rparr>;
       rb \<leftarrow> slice_lh i 5 7;
       r \<leftarrow> Uint16 rb;
       let pw = pw\<lparr>RequestedPower := r\<rparr>;
       ab \<leftarrow> slice_lh i 7 8;
       a \<leftarrow> Uint16 ab;
       Some (pw\<lparr>AllocatedPower := a\<rparr>)
     }
     else Some pw
   }"

definition Decode8023_step :: "LLDPInfo8023 \<times> err list \<Rightarrow> LLDPOrgSpecificTLV
    \<Rightarrow> (LLDPInfo8023 \<times> err list) option" where
  "Decode8023_step st o' =
     (case st of (info, errors) \<Rightarrow>
        if OUI o' \<noteq> IEEEOUI8023 then Some (info, errors)
        else if SubType o' = LLDP8023SubtypeMACPHY then
          (case checkLLDPOrgSpecificLen o' 5 errors of (ok, errors) \<Rightarrow>
             if ok then do {
               f \<leftarrow> idx (Info o') 0;
               let sup = (f AND LLDPMACPHYCapability > 0);
               f' \<leftarrow> idx (Info o') 0;
               let en = (f' AND LLDPMACPHYStatus > 0);
               cb \<leftarrow> slice_lh (Info o') 1 3;
               ca \<leftarrow> Uint16 cb;
               mb \<leftarrow> slice_lh (Info o') 3 5;
               mau \<leftarrow> Uint16 mb;
               Some (info\<lparr>info_MACPHYConfigStatus :=
                       \<lparr>AutoNegSupported = sup, AutoNegEnabled = en,
                        AutoNegCapability = ca, MAUType = mau\<rparr>\<rparr>, errors)
             }
             else Some (info, errors))
        else if SubType o' = LLDP8023SubtypeMDIPower then
          (case checkLLDPOrgSpecificLen o' 3 errors of (ok, errors) \<Rightarrow>
             if ok then do {
               pw \<leftarrow> decodeMDIPower (Info o') (info_PowerViaMDI info);
               Some (info\<lparr>info_PowerViaMDI := pw\<rparr>, errors)
             }
             else Some (info, errors))
        else if SubType o' = LLDP8023SubtypeLinkAggregation then
          (case checkLLDPOrgSpecificLen o' 5 errors of (ok, errors) \<Rightarrow>
             if ok then do {
               s \<leftarrow> idx (Info o') 0;
               b \<leftarrow> slice_lh (Info o') 1 5;
               v \<leftarrow> Uint32 b;
               Some (info\<lparr>LinkAggregation3 := \<lparr>agg3_Status = s, agg3_PortID = v\<rparr>\<rparr>, errors)
             }
             else Some (info, errors))
        else if SubType o' = LLDP8023SubtypeMTU then
          (case checkLLDPOrgSpecificLen o' 2 errors of (ok, errors) \<Rightarrow>
             if ok then do {
               b \<leftarrow> slice_lh (Info o') 0 2;
               v \<leftarrow> Uint16 b;
               Some (info\<lparr>MTU := v\<rparr>, errors)
             }
             else Some (info, errors))
        else Some (info, errors))"

definition Decode8023_loop :: "LinkLayerDiscoveryInfo \<Rightarrow> (LLDPInfo8023 \<times> err list) option" where
  "Decode8023_loop l = for_range Decode8023_step (zero_LLDPInfo8023, []) (OrgTLVs l)"

definition Decode8023 :: "LinkLayerDiscoveryInfo \<Rightarrow> (LLDPInfo8023 \<times> err option) option" where
  "Decode8023 l =
     (case Decode8023_loop l of
        None \<Rightarrow> None
      | Some (info, errors) \<Rightarrow> Some (info, first_error errors))"

subsection \<open>IEEE 802.1Qbg\<close>

definition LLDP8021QbgEVB :: byte where "LLDP8021QbgEVB = 0"

record LLDPEVBCapabilities =
  StandardBridging :: bool
  ReflectiveRelay :: bool
  RetransmissionTimerExponent :: bool
  EdgeControlProtocol :: bool
  VSIDiscoveryProtocol :: bool

definition getEVBCapabilities :: "uint16 \<Rightarrow> LLDPEVBCapabilities" where
  "getEVBCapabilities v =
     \<lparr>StandardBridging = (v AND push_bit 0 1 > 0),
      ReflectiveRelay = (v AND push_bit 1 1 > 0),
      RetransmissionTimerExponent = (v AND push_bit 2 1 > 0),
      EdgeControlProtocol = (v AND push_bit 3 1 > 0),
      VSIDiscoveryProtocol = (v AND push_bit 4 1 > 0)\<rparr>"

record LLDPEVBSettings =
  evb_Supported :: LLDPEVBCapabilities
  evb_Enabled :: LLDPEVBCapabilities
  SupportedVSIs :: uint16
  ConfiguredVSIs :: uint16
  RTEExponent :: byte

record LLDPInfo8021Qbg =
  EVBSettings :: LLDPEVBSettings

definition zero_LLDPEVBCapabilities :: LLDPEVBCapabilities where
  "zero_LLDPEVBCapabilities =
     \<lparr>StandardBridging = False, ReflectiveRelay = False,
      RetransmissionTimerExponent = False, EdgeControlProtocol = False,
      VSIDiscoveryProtocol = False\<rparr>"

definition zero_LLDPInfo8021Qbg :: LLDPInfo8021Qbg where
  "zero_LLDPInfo8021Qbg =
     \<lparr>EVBSettings =
        \<lparr>evb_Supported = zero_LLDPEVBCapabilities, evb_Enabled = zero_LLDPEVBCapabilities,
         SupportedVSIs = 0, ConfiguredVSIs = 0, RTEExponent = 0\<rparr>\<rparr>"

definition Decode8021Qbg_step :: "LLDPInfo8021Qbg \<times> err list \<Rightarrow> LLDPOrgSpecificTLV
    \<Rightarrow> (LLDPInfo8021Qbg \<times> err list) option" where
  "Decode8021Qbg_step st o' =
     (case st of (info, errors) \<Rightarrow>
        if OUI o' \<noteq> IEEEOUI8021Qbg then Some (info, errors)
        else if SubType o' = LLDP8021QbgEVB then
          (case checkLLDPOrgSpecificLen o' 9 errors of (ok, errors) \<Rightarrow>
             if ok then do {
               sb \<leftarrow> slice_lh (Info o') 0 2;
               sup \<leftarrow> Uint16 sb;
               eb \<leftarrow> slice_lh (Info o') 2 4;
               en \<leftarrow> Uint16 eb;
               vb \<leftarrow> slice_lh (Info o') 4 6;
               sv \<leftarrow> Uint16 vb;
               cb \<leftarrow> slice_lh (Info o') 6 8;
               cv \<leftarrow> Uint16 cb;
               r \<leftarrow> idx (Info o') 8;
               Some (info\<lparr>EVBSettings :=
                       \<lparr>evb_Supported = getEVBCapabilities sup,
                        evb_Enabled = getEVBCapabilities en,
                        SupportedVSIs = sv, ConfiguredVSIs = cv, RTEExponent = r\<rparr>\<rparr>, errors)
             }
             else Some (info, errors))
        else Some (info, errors))"

definition Decode8021Qbg_loop :: "LinkLayerDiscoveryInfo \<Rightarrow> (LLDPInfo8021Qbg \<times> err list) option" where
  "Decode8021Qbg_loop l = for_range Decode8021Qbg_step (zero_LLDPInfo8021Qbg, []) (OrgTLVs l)"

definition Decode8021Qbg :: "LinkLayerDiscoveryInfo \<Rightarrow> (LLDPInfo8021Qbg \<times> err option) option" where
  "Decode8021Qbg l =
     (case Decode8021Qbg_loop l of
        None \<Rightarrow> None
      | Some (info, errors) \<Rightarrow> Some (info, first_error errors))"

section \<open>Inputs and projections used in the statements\<close>

definition info_layers :: "layer list \<Rightarrow> LinkLayerDiscoveryInfo list" where
  "info_layers ls =
     concat (map (\<lambda>l. case l of LayerLinkLayerDiscoveryInfo i \<Rightarrow> [i] | _ \<Rightarrow> []) ls)"

definition base_layers :: "layer list \<Rightarrow> LinkLayerDiscovery list" where
  "base_layers ls =
     concat (map (\<lambda>l. case l of LayerLinkLayerDiscovery c \<Rightarrow> [c] | _ \<Rightarrow> []) ls)"

definition with_OrgTLVs :: "LLDPOrgSpecificTLV list \<Rightarrow> LinkLayerDiscoveryInfo" where
  "with_OrgTLVs ts = zero_LinkLayerDiscoveryInfo\<lparr>OrgTLVs := ts\<rparr>"

text \<open>One record: header \<open>0x03 0x02\<close> (kind 1, bottom bit set, low byte 2), two value bytes.\<close>

definition frame_header_bit :: "byte list" where
  "frame_header_bit = [0x03, 0x02, 0xAA, 0xBB]"

text \<open>A ChassisID record (kind 1) that declares 5 value bytes and carries 1.\<close>

definition frame_truncated :: "byte list" where
  "frame_truncated = [0x02, 0x05, 0xAA]"

text \<open>ChassisID (subtype 4), PortID (subtype 3), SysName "a", End: four records, no TTL.\<close>

definition frame_no_TTL :: "byte list" where
  "frame_no_TTL =
     [0x02, 0x02, 0x04, 0xAA,  0x04, 0x02, 0x03, 0xBB,  0x0A, 0x01, 0x61,  0x00, 0x00]"

text \<open>
  ChassisID, PortID, TTL 120, a ManagementAddress record of 12 value bytes (address length
  4, interface kind 2, interface number 7, OID length 1 or 2), End.
\<close>

definition frame_mgmt_oid1 :: "byte list" where
  "frame_mgmt_oid1 =
     [0x02, 0x02, 0x04, 0xAA,  0x04, 0x02, 0x03, 0xBB,  0x06, 0x02, 0x00, 0x78,
      0x10, 0x0C, 4, 1, 10, 0, 0, 2, 0, 0, 0, 7, 1, 0x2B,  0x00, 0x00]"

definition frame_mgmt_oid2 :: "byte list" where
  "frame_mgmt_oid2 =
     [0x02, 0x02, 0x04, 0xAA,  0x04, 0x02, 0x03, 0xBB,  0x06, 0x02, 0x00, 0x78,
      0x10, 0x0C, 4, 1, 10, 0, 0, 2, 0, 0, 0, 7, 2, 0x2B,  0x00, 0x00]"

text \<open>The same with a ManagementAddress record of 9 value bytes whose address length is 250.\<close>

definition frame_mgmt_wrap :: "byte list" where
  "frame_mgmt_wrap =
     [0x02, 0x02, 0x04, 0xAA,  0x04, 0x02, 0x03, 0xBB,  0x06, 0x02, 0x00, 0x78,
      0x10, 0x09, 250, 1, 10, 0, 0, 2, 0, 0, 0,  0x00, 0x00]"

text \<open>Two undersized 802.1 payloads each; the second payload differs.\<close>

definition two_short_8021 :: LinkLayerDiscoveryInfo where
  "two_short_8021 = with_OrgTLVs
     [\<lparr>OUI = IEEEOUI8021, SubType = LLDP8021SubtypePortVLANID, Info = Slice [1] []\<rparr>,
      \<lparr>OUI = IEEEOUI8021, SubType = LLDP8021SubtypeManagementVID, Info = Slice [] []\<rparr>]"

definition two_short_8021' :: LinkLayerDiscoveryInfo where
  "two_short_8021' = with_OrgTLVs
     [\<lparr>OUI = IEEEOUI8021, SubType = LLDP8021SubtypePortVLANID, Info = Slice [1] []\<rparr>,
      \<lparr>OUI = IEEEOUI8021, SubType = LLDP8021SubtypeVDIUsageDigest, Info = Slice [1, 2, 3] []\<rparr>]"

definition two_short_8023 :: LinkLayerDiscoveryInfo where
  "two_short_8023 = with_OrgTLVs
     [\<lparr>OUI = IEEEOUI8023, SubType = LLDP8023SubtypeMTU, Info = Slice [5] []\<rparr>,
      \<lparr>OUI = IEEEOUI8023, SubType = LLDP8023SubtypeMACPHY, Info = Slice [3, 0] []\<rparr>]"

definition short_8021Qbg :: LinkLayerDiscoveryInfo where
  "short_8021Qbg = with_OrgTLVs
     [\<lparr>OUI = IEEEOUI8021Qbg, SubType = LLDP8021QbgEVB, Info = Slice [0, 3, 0, 1] []\<rparr>]"

text \<open>
  Leftover records as the walker builds them: a SysName record "sw", a SysCapabilities
  record of 2 bytes, a PortDescription record "p1".
\<close>

definition rec_SysName :: LinkLayerDiscoveryValue where
  "rec_SysName = \<lparr>Type = LLDPTLVSysName, Length = 2,
     Value = Slice [0x73, 0x77] [0x0E, 0x02, 0x00, 0x04, 0x00, 0x00]\<rparr>"

definition rec_SysCapabilities_short :: LinkLayerDiscoveryValue where
  "rec_SysCapabilities_short = \<lparr>Type = LLDPTLVSysCapabilities, Length = 2,
     Value = Slice [0x00, 0x04] [0x00, 0x00]\<rparr>"

definition rec_PortDescription :: LinkLayerDiscoveryValue where
  "rec_PortDescription = \<lparr>Type = LLDPTLVPortDescription, Length = 2,
     Value = Slice [0x70, 0x31] [0x0A, 0x02, 0x73, 0x77, 0x0E, 0x02, 0x00, 0x04, 0x00, 0x00]\<rparr>"

text \<open>
  ChassisID, PortID, TTL 120, SysName "sw", a SysCapabilities record of 2 bytes, End.
\<close>

definition frame_partial :: "byte list" where
  "frame_partial =
     [0x02, 0x02, 0x04, 0xAA,  0x04, 0x02, 0x03, 0xBB,  0x06, 0x02, 0x00, 0x78,
      0x0A, 0x02, 0x73, 0x77,  0x0E, 0x02, 0x00, 0x04,  0x00, 0x00]"

text \<open>
  The same frame with a ManagementAddress record of 9 value bytes, address length 250,
  between the SysCapabilities record and End.
\<close>

definition frame_partial_mgmt :: "byte list" where
  "frame_partial_mgmt =
     [0x02, 0x02, 0x04, 0xAA,  0x04, 0x02, 0x03, 0xBB,  0x06, 0x02, 0x00, 0x78,
      0x0A, 0x02, 0x73, 0x77,  0x0E, 0x02, 0x00, 0x04,
      0x10, 0x09, 250, 1, 10, 0, 0, 2, 0, 0, 0,  0x00, 0x00]"

section \<open>Slices and big-endian reads\<close>

lemma len_le_cap: "len s \<le> cap s"
  by (simp add: len_def cap_def)

lemma len_slice_lh: "slice_lh s lo hi = Some t \<Longrightarrow> len t = hi - lo"
  by (auto simp: slice_lh_def len_def cap_def split: if_splits)

lemma slice_lh_Some: "lo \<le> hi \<Longrightarrow> hi \<le> cap s \<Longrightarrow> \<exists>t. slice_lh s lo hi = Some t"
  by (simp add: slice_lh_def)

lemma slice_l_zero: "slice_l d 0 = Some d"
  by (cases d) (simp add: slice_l_def slice_lh_def len_def cap_def)

lemma Uint16_short: "len b < 2 \<Longrightarrow> Uint16 b = None"
  by (simp add: Uint16_def idx_def)

lemma Uint16_Some: "2 \<le> len b \<Longrightarrow> \<exists>v. Uint16 b = Some v"
  by (simp add: Uint16_def idx_def)

lemma Uint16_prefix:
  assumes "2 \<le> len i"
  shows "\<exists>b. slice_lh i 0 2 = Some b \<and>
     Uint16 b = Some ((ucast (vis i ! 1) :: uint16) OR push_bit 8 (ucast (vis i ! 0) :: uint16))"
proof -
  from assms have "2 \<le> cap i" using len_le_cap [of i] by simp
  with assms show ?thesis
    by (cases i) (auto simp: slice_lh_def Uint16_def idx_def len_def cap_def nth_append)
qed

lemma unat_ucast_byte: "unat (ucast (b :: byte) :: uint16) = unat b"
proof -
  have "unat b < 2 ^ 16"
    using unsigned_less [where w = b and 'a = nat] by simp
  then show ?thesis
    by (simp add: unsigned_ucast_eq take_bit_nat_eq_self)
qed

lemma ucast_byte_lt: "unat (ucast (b :: byte) :: uint16) < 256"
  using unsigned_less [where w = b and 'a = nat] by (simp add: unat_ucast_byte)

lemma ucast_byte_pos: "(0 :: uint16) < ucast (b :: byte) \<longleftrightarrow> 0 < unat b"
  using unat_ucast_byte [of b] by (simp add: word_less_nat_alt)

lemma unat_byte_plus_two: "unat ((ucast (b :: byte) :: uint16) + 2) = unat b + 2"
proof -
  have "unat b < 256"
    using unsigned_less [where w = b and 'a = nat] by simp
  then show ?thesis
    by (simp add: unat_word_ariths unsigned_ucast_eq take_bit_nat_eq_self)
qed

section \<open>The walker: record kind and length\<close>

text \<open>
  Whatever the first header byte is, the length the walker stores is the second
  header byte alone: \<open>nbit\<close> is a byte, so \<open>nbit<<8\<close> is 0. No record the walker
  returns has a length of 256 or more.
\<close>

lemma walk_Length_byte:
  "walk d vs = Some (Inr rs) \<Longrightarrow> \<forall>v\<in>set vs. unat (Length v) < 256
     \<Longrightarrow> \<forall>v\<in>set rs. unat (Length v) < 256"
proof (induction d vs rule: walk.induct)
  case (1 vData vals)
  show ?case
  proof (cases "0 < len vData")
    case False
    with "1.prems" show ?thesis by (simp add: walk.simps [of vData vals])
  next
    case True
    from "1.prems"(1) True obtain b0 b1 v where
      b0: "idx vData 0 = Some b0" and b1: "idx vData 1 = Some b1"
      and v: "(if (ucast b1 :: uint16) > 0
               then slice_lh vData 2 (unat ((ucast b1 :: uint16) + 2)) else Some nil) = Some v"
      by (subst (asm) walk.simps) (auto simp: Let_def split: bind_splits)
    let ?val = "\<lparr>Type = drop_bit 1 b0, Length = ucast b1, Value = v\<rparr>"
    have vals': "\<forall>x\<in>set (vals @ [?val]). unat (Length x) < 256"
      using "1.prems"(2) ucast_byte_lt [of b1] by auto
    show ?thesis
    proof (cases "drop_bit 1 b0 = LLDPTLVEnd")
      case True
      with "1.prems"(1) \<open>0 < len vData\<close> b0 b1 v have "rs = vals @ [?val]"
        by (subst (asm) walk.simps) (auto simp: Let_def split: if_splits)
      with vals' show ?thesis by simp
    next
      case False
      with "1.prems"(1) \<open>0 < len vData\<close> b0 b1 v obtain d' where
        nl: "\<not> len vData < unat (2 + (ucast b1 :: uint16))"
        and d': "slice_l vData (unat (2 + (ucast b1 :: uint16))) = Some d'"
        and w: "walk d' (vals @ [?val]) = Some (Inr rs)"
        by (subst (asm) walk.simps) (auto simp: Let_def split: if_splits bind_splits)
      show ?thesis
        by (rule "1.IH" [OF \<open>0 < len vData\<close> b0 refl refl b1 _ v refl refl False nl d' w vals'])
          simp
    qed
  qed
qed

text \<open>
  C1. The claim: a record's length is the 9-bit value \<open>(header_bit0 << 8) | low byte\<close>,
  so a first header byte with its bottom bit set gives 256 plus the second byte; the
  kind is the top 7 bits of the first byte. On the header \<open>0x03 0x02\<close> the walker
  returns kind 1, as claimed, and length 2, where the claim says 258.
\<close>

theorem C1_length_is_low_byte_only:
  "walk (Slice frame_header_bit []) [] =
     Some (Inr [\<lparr>Type = 1, Length = 2, Value = Slice [0xAA, 0xBB] []\<rparr>])"
  by code_simp

section \<open>The walker: truncated records\<close>

text \<open>
  The value is sliced out (line 462) before the length is compared with what is left
  (line 468). When the declared length reaches beyond the capacity of the buffer, the
  slice expression panics; the comparison is reached only when the backing array is
  long enough.
\<close>

lemma walk_truncated_panics:
  assumes "idx d 1 = Some b1" and "cap d < unat b1 + 2"
  shows "walk d vs = None"
proof -
  from assms(1) have l: "1 < len d" by (simp add: idx_def split: if_splits)
  then obtain b0 where b0: "idx d 0 = Some b0" by (simp add: idx_def)
  from l assms(2) len_le_cap [of d] have "0 < unat b1" by simp
  then have pos: "(0 :: uint16) < ucast b1" by (simp add: ucast_byte_pos)
  from assms(2) have "slice_lh d 2 (unat ((ucast b1 :: uint16) + 2)) = None"
    by (simp add: slice_lh_def unat_byte_plus_two)
  with l b0 assms(1) pos show ?thesis
    by (subst walk.simps) (simp add: Let_def)
qed

lemma decode_truncated_panics:
  assumes "idx d 1 = Some b1" and "cap d < unat b1 + 2"
  shows "decodeLinkLayerDiscovery d p = (p, Panicked)"
  by (simp add: decodeLinkLayerDiscovery_def slice_l_zero walk_truncated_panics [OF assms])

lemma truncated_with_spare_capacity:
  "decodeLinkLayerDiscovery (Slice frame_truncated [0, 0, 0, 0]) [] =
     ([], Returned (Some MalformedHeader))"
  by code_simp

text \<open>
  C2. The claim: a buffer whose first record declares more value bytes than remain
  makes the decoder return the truncated-record error, without a crash and without a
  layer. On the three bytes \<open>0x02 0x05 0xAA\<close>, in a buffer of capacity 3, the decoder
  panics: no error is returned.
\<close>

theorem C2_truncated_first_record_panics:
  "decodeLinkLayerDiscovery (Slice frame_truncated []) [] = ([], Panicked)"
  by code_simp

section \<open>Mandatory records\<close>

text \<open>
  C3. The claim: a frame with a valid ChassisID, a valid PortID, an End record and at
  least four records, but no TTL record, is refused with the missing-mandatory error.
  The decoder accepts such a frame: it returns no error and adds both layers, the base
  layer with a TTL of 0.
\<close>

theorem C3_frame_without_TTL_accepted:
  "snd (decodeLinkLayerDiscovery (Slice frame_no_TTL []) []) = Returned None \<and>
   length (fst (decodeLinkLayerDiscovery (Slice frame_no_TTL []) [])) = 2 \<and>
   map TTL (base_layers (fst (decodeLinkLayerDiscovery (Slice frame_no_TTL []) []))) = [0] \<and>
   map (chassis_Subtype \<circ> ChassisID)
     (base_layers (fst (decodeLinkLayerDiscovery (Slice frame_no_TTL []) []))) = [4] \<and>
   map (port_Subtype \<circ> PortID)
     (base_layers (fst (decodeLinkLayerDiscovery (Slice frame_no_TTL []) []))) = [3] \<and>
   map (map Type \<circ> Values)
     (base_layers (fst (decodeLinkLayerDiscovery (Slice frame_no_TTL []) []))) = [[5]]"
  by code_simp

section \<open>IEEE 802.3 power via MDI\<close>

text \<open>
  With 8 bytes or more the case reads \<open>binary.BigEndian.Uint16(o.Info[7:8])\<close>: a
  slice of one byte, on which \<open>Uint16\<close> panics.
\<close>

lemma decodeMDIPower_panics:
  assumes "8 \<le> len i"
  shows "decodeMDIPower i pw = None"
proof -
  from assms have c: "8 \<le> cap i" using len_le_cap [of i] by simp
  obtain rb where rb: "slice_lh i 5 7 = Some rb"
    using slice_lh_Some [of 5 7 i] c by auto
  then have "len rb = 2" using len_slice_lh by fastforce
  then obtain r where r: "Uint16 rb = Some r" using Uint16_Some [of rb] by auto
  obtain ab where ab: "slice_lh i 7 8 = Some ab"
    using slice_lh_Some [of 7 8 i] c by auto
  then have "len ab = 1" using len_slice_lh by fastforce
  then have a: "Uint16 ab = None" by (simp add: Uint16_short)
  from assms have ix: "\<And>k. k < 8 \<Longrightarrow> idx i k = Some (vis i ! k)"
    by (simp add: idx_def)
  show ?thesis
    using assms by (simp add: decodeMDIPower_def ix rb r ab a Let_def)
qed

lemma Decode8023_step_MDIPower_panics:
  assumes "OUI o' = IEEEOUI8023" and "SubType o' = LLDP8023SubtypeMDIPower"
    and "8 \<le> len (Info o')"
  shows "Decode8023_step st o' = None"
  using assms decodeMDIPower_panics [OF assms(3)]
  by (cases st) (simp add: Decode8023_step_def checkLLDPOrgSpecificLen_def
      LLDP8023Subtype_defs Let_def)

text \<open>
  C4. The claim: for an MDI-Power payload of at least 8 bytes \<open>Decode8023\<close> returns,
  without crashing, a PowerViaMDI with the power type, source, priority, requested and
  allocated power. On the 9-byte payload \<open>0f 01 02 40 01 00 0a 00 14\<close> the call
  panics and returns nothing.
\<close>

theorem C4_MDIPower_eight_bytes_panics:
  "Decode8023 (with_OrgTLVs [\<lparr>OUI = IEEEOUI8023, SubType = LLDP8023SubtypeMDIPower,
       Info = Slice [0x0f, 1, 2, 0x40, 0x01, 0, 10, 0, 20] []\<rparr>]) = None"
  by code_simp

section \<open>Error accumulation\<close>

text \<open>
  C5, as stated: with two or more accumulated errors the caller receives the full
  ordered list. The 802.1 decode of two undersized payloads accumulates two errors and
  returns the first alone; a second input whose second error differs returns the very
  same value, so the list cannot be recovered from what the caller receives.
\<close>

theorem C5_error_list_not_returned:
  "Decode8021_loop two_short_8021 =
     Some (zero_LLDPInfo8021, [InvalidOrgTLVLength 1 1 2, InvalidOrgTLVLength 6 0 2]) \<and>
   Decode8021_loop two_short_8021' =
     Some (zero_LLDPInfo8021, [InvalidOrgTLVLength 1 1 2, InvalidOrgTLVLength 5 3 4]) \<and>
   Decode8021 two_short_8021 = Some (zero_LLDPInfo8021, Some (InvalidOrgTLVLength 1 1 2)) \<and>
   Decode8021 two_short_8021' = Decode8021 two_short_8021"
  by code_simp

text \<open>
  C5, amended: whenever the info decode or an extension decode (802.1, 802.3, 802.1Qbg)
  ends its loop with one or more accumulated errors, the caller receives the partially
  populated result object together with the first of those errors only; the info
  decode has added the info layer before it returns.
\<close>

theorem C5_only_first_error_returned:
  "(decodeInfo_loop vs = Some (info, errors) \<and> errors \<noteq> [] \<longrightarrow>
      decodeInfo vs p = (p @ [LayerLinkLayerDiscoveryInfo info], Returned (Some (hd errors)))) \<and>
   (Decode8021_loop l1 = Some (i1, es1) \<and> es1 \<noteq> [] \<longrightarrow>
      Decode8021 l1 = Some (i1, Some (hd es1))) \<and>
   (Decode8023_loop l3 = Some (i3, es3) \<and> es3 \<noteq> [] \<longrightarrow>
      Decode8023 l3 = Some (i3, Some (hd es3))) \<and>
   (Decode8021Qbg_loop lq = Some (iq, esq) \<and> esq \<noteq> [] \<longrightarrow>
      Decode8021Qbg lq = Some (iq, Some (hd esq)))"
  by (simp add: decodeInfo_def Decode8021_def Decode8023_def Decode8021Qbg_def first_error_def)

theorem C5_only_first_error_returned_witness:
  "decodeInfo [rec_SysCapabilities_short, rec_SysName, rec_SysCapabilities_short] [] =
     ([LayerLinkLayerDiscoveryInfo (zero_LinkLayerDiscoveryInfo\<lparr>SysName := [0x73, 0x77]\<rparr>)],
      Returned (Some (InvalidTLVLength 7 2 4))) \<and>
   Decode8021 two_short_8021 = Some (zero_LLDPInfo8021, Some (InvalidOrgTLVLength 1 1 2)) \<and>
   Decode8023 two_short_8023 = Some (zero_LLDPInfo8023, Some (InvalidOrgTLVLength 4 1 2)) \<and>
   Decode8021Qbg short_8021Qbg = Some (zero_LLDPInfo8021Qbg, Some (InvalidOrgTLVLength 0 4 9))"
proof -
  have h0: "decodeInfo_loop [rec_SysCapabilities_short, rec_SysName, rec_SysCapabilities_short] =
      Some (zero_LinkLayerDiscoveryInfo\<lparr>SysName := [0x73, 0x77]\<rparr>,
            [InvalidTLVLength 7 2 4, InvalidTLVLength 7 2 4])"
    by code_simp
  have h1: "Decode8021_loop two_short_8021 =
      Some (zero_LLDPInfo8021, [InvalidOrgTLVLength 1 1 2, InvalidOrgTLVLength 6 0 2])"
    by code_simp
  have h3: "Decode8023_loop two_short_8023 =
      Some (zero_LLDPInfo8023, [InvalidOrgTLVLength 4 1 2, InvalidOrgTLVLength 1 2 5])"
    by code_simp
  have hq: "Decode8021Qbg_loop short_8021Qbg =
      Some (zero_LLDPInfo8021Qbg, [InvalidOrgTLVLength 0 4 9])"
    by code_simp
  show ?thesis
    using C5_only_first_error_returned
      [where vs = "[rec_SysCapabilities_short, rec_SysName, rec_SysCapabilities_short]"
        and info = "zero_LinkLayerDiscoveryInfo\<lparr>SysName := [0x73, 0x77]\<rparr>"
        and errors = "[InvalidTLVLength 7 2 4, InvalidTLVLength 7 2 4]" and p = "[]"
        and ?l1.0 = two_short_8021 and ?i1.0 = zero_LLDPInfo8021
        and ?es1.0 = "[InvalidOrgTLVLength 1 1 2, InvalidOrgTLVLength 6 0 2]"
        and ?l3.0 = two_short_8023 and ?i3.0 = zero_LLDPInfo8023
        and ?es3.0 = "[InvalidOrgTLVLength 4 1 2, InvalidOrgTLVLength 1 2 5]"
        and lq = short_8021Qbg and iq = zero_LLDPInfo8021Qbg
        and esq = "[InvalidOrgTLVLength 0 4 9]"]
      h0 h1 h3 hq
    by simp
qed

section \<open>Partial success of the info decode\<close>

lemma step_SysName:
  "Type v = LLDPTLVSysName \<Longrightarrow>
     decodeInfo_step (info, es) v = Some (info\<lparr>SysName := string_of (Value v)\<rparr>, es)"
  by (simp add: decodeInfo_step_def LLDPTLV_defs)

lemma step_SysCapabilities_short:
  "Type v = LLDPTLVSysCapabilities \<Longrightarrow> len (Value v) < 4 \<Longrightarrow>
     decodeInfo_step (info, es) v =
       Some (info, es @ [InvalidTLVLength LLDPTLVSysCapabilities (len (Value v)) 4])"
  by (simp add: decodeInfo_step_def LLDPTLV_defs checkLLDPTLVLen_def Let_def)

lemma OrgSpecific_reads:
  assumes "4 \<le> len s"
  shows "\<exists>b oui st rest. slice_lh s 0 3 = Some b \<and> Uint32 (append_zero b) = Some oui \<and>
     idx s 3 = Some st \<and> slice_l s 4 = Some rest"
proof -
  from assms have "4 \<le> cap s" using len_le_cap [of s] by simp
  with assms show ?thesis
    by (cases s) (auto simp: slice_lh_def slice_l_def Uint32_def append_zero_def idx_def
        len_def cap_def)
qed

text \<open>
  A record of any kind other than SysName, SysCapabilities and ManagementAddress is
  decoded without a panic, leaves \<open>SysName\<close> and \<open>SysCapabilities\<close> alone and keeps
  the errors collected so far.
\<close>

lemma step_other:
  assumes "Type v \<noteq> LLDPTLVSysName" and "Type v \<noteq> LLDPTLVSysCapabilities"
    and "Type v \<noteq> LLDPTLVMgmtAddress"
  shows "\<exists>info' es'. decodeInfo_step (info, es) v = Some (info', es @ es') \<and>
     SysName info' = SysName info \<and> SysCapabilities info' = SysCapabilities info"
proof (cases "Type v = LLDPTLVOrgSpecific \<and> 4 \<le> len (Value v)")
  case True
  then obtain b oui st rest where "slice_lh (Value v) 0 3 = Some b"
    "Uint32 (append_zero b) = Some oui" "idx (Value v) 3 = Some st"
    "slice_l (Value v) 4 = Some rest"
    using OrgSpecific_reads [of "Value v"] by auto
  with True assms show ?thesis
    by (simp add: decodeInfo_step_def LLDPTLV_defs checkLLDPTLVLen_def Let_def)
next
  case False
  with assms show ?thesis
    by (auto simp: decodeInfo_step_def LLDPTLV_defs checkLLDPTLVLen_def Let_def)
qed

lemma info_loop_invariant:
  assumes "\<forall>v\<in>set vs. v = sn \<or> v = sc \<or>
      (Type v \<noteq> LLDPTLVSysName \<and> Type v \<noteq> LLDPTLVSysCapabilities \<and>
       Type v \<noteq> LLDPTLVMgmtAddress)"
    and "Type sn = LLDPTLVSysName" and "Type sc = LLDPTLVSysCapabilities"
    and "len (Value sc) < 4"
  shows "\<exists>info' es'. for_range decodeInfo_step (info, es) vs = Some (info', es @ es') \<and>
     SysCapabilities info' = SysCapabilities info \<and>
     SysName info' = (if sn \<in> set vs then string_of (Value sn) else SysName info) \<and>
     (sc \<in> set vs \<longrightarrow> es' \<noteq> [])"
  using assms(1)
proof (induction vs arbitrary: info es)
  case Nil
  then show ?case by simp
next
  case (Cons v vs)
  from Cons.prems have rest: "\<forall>v\<in>set vs. v = sn \<or> v = sc \<or>
      (Type v \<noteq> LLDPTLVSysName \<and> Type v \<noteq> LLDPTLVSysCapabilities \<and>
       Type v \<noteq> LLDPTLVMgmtAddress)"
    by simp
  have ne: "sn \<noteq> sc" using assms(2,3) by (auto simp: LLDPTLV_defs)
  from Cons.prems consider (name) "v = sn" | (caps) "v = sc"
    | (other) "Type v \<noteq> LLDPTLVSysName" "Type v \<noteq> LLDPTLVSysCapabilities"
        "Type v \<noteq> LLDPTLVMgmtAddress"
    by auto
  then show ?case
  proof cases
    case name
    obtain info' es' where
      "for_range decodeInfo_step (info\<lparr>SysName := string_of (Value sn)\<rparr>, es) vs =
         Some (info', es @ es')"
      "SysCapabilities info' = SysCapabilities (info\<lparr>SysName := string_of (Value sn)\<rparr>)"
      "SysName info' = (if sn \<in> set vs then string_of (Value sn)
         else SysName (info\<lparr>SysName := string_of (Value sn)\<rparr>))"
      "sc \<in> set vs \<longrightarrow> es' \<noteq> []"
      using Cons.IH [OF rest] by blast
    with name ne assms(2) show ?thesis
      by (auto simp: step_SysName)
  next
    case caps
    let ?e = "InvalidTLVLength LLDPTLVSysCapabilities (len (Value sc)) 4"
    obtain info' es' where
      "for_range decodeInfo_step (info, es @ [?e]) vs = Some (info', (es @ [?e]) @ es')"
      "SysCapabilities info' = SysCapabilities info"
      "SysName info' = (if sn \<in> set vs then string_of (Value sn) else SysName info)"
      using Cons.IH [OF rest, of info "es @ [?e]"] by blast
    with caps ne assms(3,4) show ?thesis
      by (auto simp: step_SysCapabilities_short)
  next
    case other
    from other assms(2,3) have vne: "v \<noteq> sn" "v \<noteq> sc" by auto
    obtain i1 e1 where s: "decodeInfo_step (info, es) v = Some (i1, es @ e1)"
      "SysName i1 = SysName info" "SysCapabilities i1 = SysCapabilities info"
      using step_other [OF other] by blast
    obtain info' es' where
      r: "for_range decodeInfo_step (i1, es @ e1) vs = Some (info', (es @ e1) @ es')"
      "SysCapabilities info' = SysCapabilities i1"
      "SysName info' = (if sn \<in> set vs then string_of (Value sn) else SysName i1)"
      "sc \<in> set vs \<longrightarrow> es' \<noteq> []"
      using Cons.IH [OF rest, of i1 "es @ e1"] by blast
    show ?thesis
      using s r vne by auto
  qed
qed

text \<open>The same through the whole decoder, on a frame.\<close>

lemma partial_info_frame:
  "snd (decodeLinkLayerDiscovery (Slice frame_partial []) []) =
     Returned (Some (InvalidTLVLength 7 2 4)) \<and>
   info_layers (fst (decodeLinkLayerDiscovery (Slice frame_partial []) [])) =
     [zero_LinkLayerDiscoveryInfo\<lparr>SysName := [0x73, 0x77]\<rparr>]"
  by code_simp

text \<open>
  When the leftover records hold a SysName record and a SysCapabilities record shorter
  than 4 bytes, in any order, among records of other kinds that are not
  ManagementAddress records, the info decode yields a DiscoveryInfo whose \<open>SysName\<close>
  is the record's text and whose \<open>SysCapabilities\<close> is the zero value, adds it as a
  layer, and returns the first of a non-empty error list.
\<close>

lemma partial_info_delivered:
  assumes "sn \<in> set vs" and "Type sn = LLDPTLVSysName"
    and "sc \<in> set vs" and "Type sc = LLDPTLVSysCapabilities" and "len (Value sc) < 4"
    and "\<forall>v\<in>set vs. v = sn \<or> v = sc \<or>
      (Type v \<noteq> LLDPTLVSysName \<and> Type v \<noteq> LLDPTLVSysCapabilities \<and>
       Type v \<noteq> LLDPTLVMgmtAddress)"
  shows "\<exists>info errors.
     decodeInfo_loop vs = Some (info, errors) \<and> errors \<noteq> [] \<and>
     SysName info = string_of (Value sn) \<and>
     SysCapabilities info = zero_LLDPSysCapabilities \<and>
     decodeInfo vs p = (p @ [LayerLinkLayerDiscoveryInfo info], Returned (Some (hd errors)))"
proof -
  obtain info es' where
    r: "for_range decodeInfo_step (zero_LinkLayerDiscoveryInfo, []) vs = Some (info, [] @ es')"
    "SysCapabilities info = SysCapabilities zero_LinkLayerDiscoveryInfo"
    "SysName info = (if sn \<in> set vs then string_of (Value sn)
       else SysName zero_LinkLayerDiscoveryInfo)"
    "sc \<in> set vs \<longrightarrow> es' \<noteq> []"
    using info_loop_invariant [OF assms(6,2,4,5), of zero_LinkLayerDiscoveryInfo "[]"] by blast
  have z: "SysCapabilities zero_LinkLayerDiscoveryInfo = zero_LLDPSysCapabilities"
    by (simp add: zero_LinkLayerDiscoveryInfo_def)
  from r assms(1,3) z show ?thesis
    by (simp add: decodeInfo_loop_def decodeInfo_def first_error_def)
qed

lemma partial_info_delivered_example:
  "\<exists>info errors.
     decodeInfo_loop [rec_PortDescription, rec_SysCapabilities_short, rec_SysName] =
       Some (info, errors) \<and> errors \<noteq> [] \<and>
     SysName info = [0x73, 0x77] \<and>
     SysCapabilities info = zero_LLDPSysCapabilities \<and>
     decodeInfo [rec_PortDescription, rec_SysCapabilities_short, rec_SysName] [] =
       ([LayerLinkLayerDiscoveryInfo info], Returned (Some (hd errors)))"
  using partial_info_delivered [of rec_SysName
      "[rec_PortDescription, rec_SysCapabilities_short, rec_SysName]"
      rec_SysCapabilities_short "[]"]
  by (simp add: rec_SysName_def rec_SysCapabilities_short_def rec_PortDescription_def
      LLDPTLV_defs len_def string_of_def)

text \<open>
  The error list a step starts from does not influence what it decodes: the step
  appends to it.
\<close>

lemma decodeInfo_step_errors:
  "decodeInfo_step (info, es) v =
     map_option (\<lambda>(i, d). (i, es @ d)) (decodeInfo_step (info, []) v)"
proof -
  consider (mgmt) "Type v = LLDPTLVMgmtAddress" | (oth) "Type v \<noteq> LLDPTLVMgmtAddress"
    by blast
  then show ?thesis
  proof cases
    case oth
    then show ?thesis
      by (auto simp: decodeInfo_step_def checkLLDPTLVLen_def Let_def split: bind_splits)
  next
    case mgmt
    then show ?thesis
      by (simp add: decodeInfo_step_def LLDPTLV_defs checkLLDPTLVLen_def Let_def
          split: Option.bind_split)
  qed
qed

lemma for_range_append:
  "for_range f s (xs @ ys) =
     (case for_range f s xs of None \<Rightarrow> None | Some s' \<Rightarrow> for_range f s' ys)"
  by (induction xs arbitrary: s) (auto split: option.splits)

lemma for_range_errors:
  "for_range decodeInfo_step (info, es) vs =
     map_option (\<lambda>(i, d). (i, es @ d)) (for_range decodeInfo_step (info, []) vs)"
proof (induction vs arbitrary: info es)
  case Nil
  show ?case by simp
next
  case (Cons v vs)
  show ?case
  proof (cases "decodeInfo_step (info, []) v")
    case None
    then show ?thesis
      using decodeInfo_step_errors [of info es v] by simp
  next
    case (Some r)
    obtain i1 d1 where r: "r = (i1, d1)" by (cases r)
    have s: "decodeInfo_step (info, es) v = Some (i1, es @ d1)"
      using decodeInfo_step_errors [of info es v] Some r by simp
    show ?thesis
      using Some r s Cons.IH [of i1 "es @ d1"] Cons.IH [of i1 d1]
      by (cases "for_range decodeInfo_step (i1, []) vs") auto
  qed
qed

text \<open>
  An undersized SysCapabilities record anywhere among the leftover records changes
  nothing but the error list: when the other records alone decode to \<open>info\<close>, the
  same \<open>info\<close> is delivered with the record present, and an error is returned; when
  the other records alone make the decode panic, it panics with the record present.
\<close>

lemma undersized_record_skipped:
  assumes "Type sc = LLDPTLVSysCapabilities" and "len (Value sc) < 4"
  shows "decodeInfo_loop (xs @ ys) = None \<Longrightarrow> decodeInfo (xs @ sc # ys) p = (p, Panicked)"
    and "decodeInfo_loop (xs @ ys) = Some (info, es) \<Longrightarrow>
      \<exists>es'. decodeInfo_loop (xs @ sc # ys) = Some (info, es') \<and> es' \<noteq> [] \<and>
        decodeInfo (xs @ sc # ys) p =
          (p @ [LayerLinkLayerDiscoveryInfo info], Returned (Some (hd es')))"
proof -
  let ?e = "InvalidTLVLength LLDPTLVSysCapabilities (len (Value sc)) 4"
  have step: "\<And>i d. decodeInfo_step (i, d) sc = Some (i, d @ [?e])"
    using assms by (simp add: step_SysCapabilities_short)
  {
    assume n: "decodeInfo_loop (xs @ ys) = None"
    show "decodeInfo (xs @ sc # ys) p = (p, Panicked)"
    proof (cases "for_range decodeInfo_step (zero_LinkLayerDiscoveryInfo, []) xs")
      case None
      then show ?thesis
        by (simp add: decodeInfo_def decodeInfo_loop_def for_range_append)
    next
      case (Some r)
      obtain i d where r: "r = (i, d)" by (cases r)
      from n Some r have "for_range decodeInfo_step (i, d) ys = None"
        by (simp add: decodeInfo_loop_def for_range_append)
      then have "for_range decodeInfo_step (i, []) ys = None"
        using for_range_errors [of i d ys] by simp
      then have "for_range decodeInfo_step (i, d @ [?e]) ys = None"
        using for_range_errors [of i "d @ [?e]" ys] by simp
      with Some r step show ?thesis
        by (simp add: decodeInfo_def decodeInfo_loop_def for_range_append)
    qed
  }
  {
    assume s: "decodeInfo_loop (xs @ ys) = Some (info, es)"
    then obtain i d where
      xs: "for_range decodeInfo_step (zero_LinkLayerDiscoveryInfo, []) xs = Some (i, d)"
      and ys: "for_range decodeInfo_step (i, d) ys = Some (info, es)"
      by (auto simp: decodeInfo_loop_def for_range_append split: option.splits)
    from ys obtain d' where d': "for_range decodeInfo_step (i, []) ys = Some (info, d')"
      using for_range_errors [of i d ys] by auto
    then have "for_range decodeInfo_step (i, d @ [?e]) ys = Some (info, (d @ [?e]) @ d')"
      using for_range_errors [of i "d @ [?e]" ys] by simp
    with xs step have "decodeInfo_loop (xs @ sc # ys) = Some (info, (d @ [?e]) @ d')"
      by (simp add: decodeInfo_loop_def for_range_append)
    then show "\<exists>es'. decodeInfo_loop (xs @ sc # ys) = Some (info, es') \<and> es' \<noteq> [] \<and>
        decodeInfo (xs @ sc # ys) p =
          (p @ [LayerLinkLayerDiscoveryInfo info], Returned (Some (hd es')))"
      by (simp add: decodeInfo_def first_error_def)
  }
qed

text \<open>
  C6. The claim: leftover records that contain a well-formed SysName record and a
  SysCapabilities record shorter than 4 bytes still give a DiscoveryInfo with
  \<open>SysName\<close> set and \<open>SysCapabilities\<close> zero, delivered to the caller with an
  error. On a frame whose leftover records are SysName "sw", a SysCapabilities record
  of 2 bytes and a ManagementAddress record of 9 bytes with address length 250, the
  base layer is added, the info decode panics in the ManagementAddress case, and no
  DiscoveryInfo is delivered.
\<close>

theorem C6_partial_info_lost_on_panic:
  "map (map Type \<circ> Values)
     (base_layers (fst (decodeLinkLayerDiscovery (Slice frame_partial_mgmt []) []))) =
     [[LLDPTLVSysName, LLDPTLVSysCapabilities, LLDPTLVMgmtAddress]] \<and>
   map (map (len \<circ> Value) \<circ> Values)
     (base_layers (fst (decodeLinkLayerDiscovery (Slice frame_partial_mgmt []) []))) =
     [[2, 2, 9]] \<and>
   info_layers (fst (decodeLinkLayerDiscovery (Slice frame_partial_mgmt []) [])) = [] \<and>
   snd (decodeLinkLayerDiscovery (Slice frame_partial_mgmt []) []) = Panicked"
  by code_simp

section \<open>IEEE 802.1 VLAN name\<close>

text \<open>
  The case checks for 2 bytes and reads the name from \<open>o.Info[3:]\<close>. With 3 bytes or
  more a VLANName is appended; with exactly 2 the slice expression has its low bound
  above its high bound and panics, whatever the capacity.
\<close>

lemma VLANName_three_bytes_appended:
  assumes "OUI o' = IEEEOUI8021" and "SubType o' = LLDP8021SubtypeVLANName"
    and "3 \<le> len (Info o')"
  shows "Decode8021_step (info, es) o' =
     Some (info\<lparr>VLANNames := VLANNames info @
        [\<lparr>vlan_ID = (ucast (vis (Info o') ! 1) :: uint16)
                      OR push_bit 8 (ucast (vis (Info o') ! 0) :: uint16),
          Name = drop 3 (vis (Info o'))\<rparr>]\<rparr>, es)"
proof -
  obtain b where b: "slice_lh (Info o') 0 2 = Some b" and
    v: "Uint16 b = Some ((ucast (vis (Info o') ! 1) :: uint16)
          OR push_bit 8 (ucast (vis (Info o') ! 0) :: uint16))"
    using Uint16_prefix [of "Info o'"] assms(3) by auto
  have n: "slice_l (Info o') 3 = Some (Slice (drop 3 (vis (Info o'))) (hid (Info o')))"
    using assms(3) by (simp add: slice_l_def slice_lh_def len_def cap_def)
  show ?thesis
    using assms b v n
    by (simp add: Decode8021_step_def checkLLDPOrgSpecificLen_def
        LLDP8021Subtype_defs Let_def string_of_def)
qed

lemma VLANName_two_bytes_panics:
  assumes "OUI o' = IEEEOUI8021" and "SubType o' = LLDP8021SubtypeVLANName"
    and "len (Info o') = 2"
  shows "Decode8021_step st o' = None"
proof -
  obtain b v where b: "slice_lh (Info o') 0 2 = Some b" and v: "Uint16 b = Some v"
    using Uint16_prefix [of "Info o'"] assms(3) by auto
  have n: "slice_l (Info o') 3 = None"
    using assms(3) by (simp add: slice_l_def slice_lh_def)
  show ?thesis
    using assms b v n
    by (cases st) (simp add: Decode8021_step_def checkLLDPOrgSpecificLen_def
        LLDP8021Subtype_defs Let_def)
qed

text \<open>
  C7. The claim: for every VLAN Name payload of at least 2 bytes \<open>Decode8021\<close>
  appends a VLANName with the big-endian id of bytes 0 and 1 and the name from offset 3
  (empty for 3 bytes or fewer). On the 2-byte payload \<open>00 07\<close> the call panics and
  appends nothing, also when the backing array goes on behind the payload.
\<close>

theorem C7_VLANName_two_bytes_panics:
  "Decode8021 (with_OrgTLVs [\<lparr>OUI = IEEEOUI8021, SubType = LLDP8021SubtypeVLANName,
       Info = Slice [0, 7] [0, 0]\<rparr>]) = None"
  by code_simp

section \<open>Dependence on the bytes behind the buffer\<close>

text \<open>
  The packet builder is written and never read: what a call appends and what it returns
  do not depend on the layers added before.
\<close>

lemma decode_independent_of_builder:
  "decodeLinkLayerDiscovery data p =
     (p @ fst (decodeLinkLayerDiscovery data []), snd (decodeLinkLayerDiscovery data []))"
  by (simp add: decodeLinkLayerDiscovery_def decodeInfo_def Let_def
      split: option.splits sum.splits prod.splits)

text \<open>
  C8. The claim: the decodes are pure functions of the input bytes. Two buffers with the
  same 28 visible bytes, whose backing arrays differ in the one byte behind them, decode
  without error to different OID texts: the OID read of the ManagementAddress record
  runs over the End record into the backing array. With no byte behind the buffer the
  same input panics.
\<close>

theorem C8_result_depends_on_bytes_behind_buffer:
  "vis (Slice frame_mgmt_oid2 [0x41]) = vis (Slice frame_mgmt_oid2 [0x42]) \<and>
   map (OID \<circ> MgmtAddress)
     (info_layers (fst (decodeLinkLayerDiscovery (Slice frame_mgmt_oid2 [0x41]) []))) =
     [[0, 0x41]] \<and>
   map (OID \<circ> MgmtAddress)
     (info_layers (fst (decodeLinkLayerDiscovery (Slice frame_mgmt_oid2 [0x42]) []))) =
     [[0, 0x42]] \<and>
   snd (decodeLinkLayerDiscovery (Slice frame_mgmt_oid2 [0x41]) []) = Returned None \<and>
   snd (decodeLinkLayerDiscovery (Slice frame_mgmt_oid2 [0x42]) []) = Returned None \<and>
   snd (decodeLinkLayerDiscovery (Slice frame_mgmt_oid2 []) []) = Panicked"
  by code_simp

section \<open>ManagementAddress bounds\<close>

text \<open>
  C9. The claim: the ManagementAddress decode never reads outside the record's value;
  the re-validations \<open>n+7\<close> and \<open>n+6+m\<close> do not wrap, and the OID read ending at
  \<open>n+9+m\<close> happens only when the value has that many bytes. On a record of 12 value
  bytes with \<open>n = 4\<close> and \<open>m = 1\<close> the check asks for 11 bytes and the OID is read
  from offsets 13 to 14: the text is the second byte of the End record that follows. On
  a record of 9 value bytes with \<open>n = 250\<close> the sum \<open>n+7\<close> wraps to 1, the check
  passes, and the address slice \<open>[2 : 251]\<close> panics.
\<close>

theorem C9_OID_read_outside_value:
  "map (map (len \<circ> Value) \<circ> Values)
     (base_layers (fst (decodeLinkLayerDiscovery (Slice frame_mgmt_oid1 []) []))) = [[12]] \<and>
   map (OID \<circ> MgmtAddress)
     (info_layers (fst (decodeLinkLayerDiscovery (Slice frame_mgmt_oid1 []) []))) = [[0]] \<and>
   snd (decodeLinkLayerDiscovery (Slice frame_mgmt_oid1 []) []) = Returned None \<and>
   checkLLDPTLVLen \<lparr>Type = LLDPTLVMgmtAddress, Length = 9,
       Value = Slice [250, 1, 10, 0, 0, 2, 0, 0, 0] [0, 0]\<rparr> (uint ((250 :: byte) + 7)) [] =
     (True, []) \<and>
   snd (decodeLinkLayerDiscovery (Slice frame_mgmt_wrap []) []) = Panicked"
  by code_simp

section \<open>IEEE 802.1 protocol identity\<close>

text \<open>
  The case checks for 1 byte and then slices \<open>o.Info[1:1+l]\<close> with \<open>l\<close> the first
  byte. Nothing compares \<open>1+l\<close> with the length: beyond the capacity the slice
  expression panics, and between length and capacity it returns bytes that lie behind
  the payload.
\<close>

lemma ProtocolIdentity_beyond_cap_panics:
  assumes "OUI o' = IEEEOUI8021" and "SubType o' = LLDP8021SubtypeProtocolIdentity"
    and "idx (Info o') 0 = Some l" and "cap (Info o') < 1 + unat l"
  shows "Decode8021_step st o' = None"
proof -
  from assms(3) have "1 \<le> len (Info o')" by (simp add: idx_def split: if_splits)
  moreover from this assms(4) len_le_cap [of "Info o'"] have "0 < unat l" by simp
  moreover from assms(4) have "slice_lh (Info o') 1 (1 + unat l) = None"
    by (simp add: slice_lh_def)
  ultimately show ?thesis
    using assms(1-3)
    by (cases st) (simp add: Decode8021_step_def checkLLDPOrgSpecificLen_def
        LLDP8021Subtype_defs Let_def)
qed

lemma ProtocolIdentity_reads_behind_payload:
  assumes "OUI o' = IEEEOUI8021" and "SubType o' = LLDP8021SubtypeProtocolIdentity"
    and "idx (Info o') 0 = Some l" and "len (Info o') < 1 + unat l"
    and "1 + unat l \<le> cap (Info o')"
  shows "Decode8021_step (info, es) o' =
     Some (info\<lparr>ProtocolIdentities := ProtocolIdentities info @
        [Slice (drop 1 (vis (Info o')) @ take (1 + unat l - len (Info o')) (hid (Info o')))
               (drop (1 + unat l - len (Info o')) (hid (Info o')))]\<rparr>, es)"
proof -
  from assms(3) have one: "1 \<le> len (Info o')" by (simp add: idx_def split: if_splits)
  with assms(4) have pos: "0 < unat l" by simp
  have "slice_lh (Info o') 1 (1 + unat l) =
      Some (Slice (drop 1 (vis (Info o')) @ take (1 + unat l - len (Info o')) (hid (Info o')))
               (drop (1 + unat l - len (Info o')) (hid (Info o'))))"
    using assms(4,5) one by (simp add: slice_lh_def len_def cap_def)
  with one pos assms(1-3) show ?thesis
    by (simp add: Decode8021_step_def checkLLDPOrgSpecificLen_def
        LLDP8021Subtype_defs Let_def)
qed

text \<open>
  C10. The claim: for a Protocol Identity payload of at least 1 byte \<open>Decode8021\<close>
  reads bytes \<open>[1, 1+l)\<close> only when the payload has \<open>1+l\<close> bytes. On the 2-byte
  payload \<open>05 41\<close> in a buffer that ends there, the call panics; on the 2-byte
  payload \<open>02 41\<close> followed in the buffer by the End record \<open>00 00\<close>, the identity
  returned is \<open>41 00\<close>, whose second byte lies behind the payload.
\<close>

theorem C10_ProtocolIdentity_read_outside_payload:
  "Decode8021 (with_OrgTLVs [\<lparr>OUI = IEEEOUI8021, SubType = LLDP8021SubtypeProtocolIdentity,
       Info = Slice [5, 0x41] []\<rparr>]) = None \<and>
   Decode8021 (with_OrgTLVs [\<lparr>OUI = IEEEOUI8021, SubType = LLDP8021SubtypeProtocolIdentity,
       Info = Slice [2, 0x41] [0, 0]\<rparr>]) =
     Some (zero_LLDPInfo8021\<lparr>ProtocolIdentities := [Slice [0x41, 0] [0]]\<rparr>, None)"
  by code_simp

end
